theory Spec2Isabelle
  imports Complex_Main "HOL-Library.AList"
begin

section \<open>Tensors and the float8 (e4m3fn) format\<close>

text \<open>
  A tensor is a matrix of element values, given as its list of rows (leading dimensions
  flattened); a scalar (0-dim) tensor such as a scale is a single value. Element values
  are the finite values of the float types, taken as real numbers, and the arithmetic of
  \<open>torch\<close> on them (\<open>*\<close>, \<open>/\<close>, \<open>abs\<close>, \<open>max\<close>, \<open>clamp\<close>, \<open>reciprocal\<close>) is
  taken exact; the cast to \<open>float8_e4m3fn\<close> rounds to that format's grid. IEEE
  infinities and NaN are not values of the model: the one place of \<open>quantize.py\<close> where
  a finite input makes one (a division by a zero scale) yields \<open>NonFinite\<close>.
\<close>

type_synonym tensor = "real list list"

datatype error =
    RuntimeError      \<comment> \<open>raised by a torch operation (empty reduction, shape mismatch)\<close>
  | AttributeError    \<comment> \<open>raised by \<open>get_submodule\<close>\<close>
  | NonFinite         \<comment> \<open>not raised: the float result is \<open>inf\<close> or \<open>nan\<close>\<close>

definition elements :: "tensor \<Rightarrow> real list" where
  "elements t = concat t"

definition map_tensor :: "(real \<Rightarrow> real) \<Rightarrow> tensor \<Rightarrow> tensor" where
  "map_tensor f t = map (map f) t"

text \<open>\<open>torch.finfo(torch.float8_e4m3fn)\<close>: the largest finite magnitude is \<open>448\<close>.\<close>

definition finfo_max :: real where
  "finfo_max = 448"

definition finfo_min :: real where
  "finfo_min = - 448"

text \<open>
  \<open>Tensor.aminmax()\<close>: minimum and maximum over all elements in one pass. On a tensor
  with no element it raises (the reduction has no identity).
\<close>

definition aminmax :: "tensor \<Rightarrow> error + (real \<times> real)" where
  "aminmax t =
     (case elements t of
        [] \<Rightarrow> Inl RuntimeError
      | x # xs \<Rightarrow> Inr (fold min xs x, fold max xs x))"

text \<open>\<open>x.clamp(min=lo)\<close> and \<open>x.clamp(min=lo, max=hi)\<close>.\<close>

definition clamp_min :: "real \<Rightarrow> real \<Rightarrow> real" where
  "clamp_min lo x = max x lo"

definition clamp :: "real \<Rightarrow> real \<Rightarrow> real \<Rightarrow> real" where
  "clamp lo hi x = min (max x lo) hi"

text \<open>
  The cast \<open>.to(torch.float8_e4m3fn)\<close> of a value already clamped to \<open>[-448, 448]\<close>:
  round to nearest, ties to even, on the grid of the format (4 exponent bits with bias 7,
  3 mantissa bits). The spacing of the grid around a magnitude \<open>a\<close> is \<open>2^-9\<close> below
  \<open>2^-5\<close> (subnormals and the first binade) and doubles with each binade, up to \<open>32\<close> in
  \<open>[256, 448]\<close>.
\<close>

fun spacing_from :: "real \<Rightarrow> real \<Rightarrow> nat \<Rightarrow> real" where
  "spacing_from a q 0 = q"
| "spacing_from a q (Suc n) = (if a < 16 * q then q else spacing_from a (2 * q) n)"

definition spacing :: "real \<Rightarrow> real" where
  "spacing a = spacing_from a (1 / 512) 14"

definition round_half_even :: "real \<Rightarrow> int" where
  "round_half_even y =
     (let f = \<lfloor>y\<rfloor>; d = y - of_int f
      in if d < 1 / 2 then f
         else if 1 / 2 < d then f + 1
         else if even f then f else f + 1)"

definition to_float8_e4m3fn :: "real \<Rightarrow> real" where
  "to_float8_e4m3fn x = of_int (round_half_even (x / spacing \<bar>x\<bar>)) * spacing \<bar>x\<bar>"

section \<open>\<open>per_tensor_quantize\<close>\<close>

text \<open>
  Lines 26-47. \<open>amax.clamp(min=1e-12)\<close> keeps the divisor at or above \<open>1e-12\<close>; the
  returned pair is the float8 tensor and the reciprocal of the scale it was multiplied by.
\<close>

definition epsilon :: real where
  "epsilon = 1 / 10 ^ 12"

definition per_tensor_quantize :: "tensor \<Rightarrow> error + (tensor \<times> real)" where
  "per_tensor_quantize tensor =
     (case aminmax tensor of
        Inl e \<Rightarrow> Inl e
      | Inr (min_val, max_val) \<Rightarrow>
          (let amax = max \<bar>min_val\<bar> \<bar>max_val\<bar>;
               scale = finfo_max / clamp_min epsilon amax;
               qweight = map_tensor (\<lambda>x. clamp finfo_min finfo_max (x * scale)) tensor;
               qweight = map_tensor to_float8_e4m3fn qweight;
               scale = inverse scale
           in Inr (qweight, scale)))"

section \<open>\<open>fp8_gemm\<close>\<close>

text \<open>
  Lines 50-67. The device is a parameter: its compute capability, as
  \<open>torch.cuda.get_device_capability()\<close> returns it, and the native primitive
  \<open>torch._scaled_mm\<close>, which this repository only calls. Python compares the capability
  tuple with \<open>(9, 0)\<close> lexicographically.
\<close>

record cuda =
  capability :: "nat \<times> nat"
  scaled_mm :: "tensor \<Rightarrow> tensor \<Rightarrow> real \<Rightarrow> real \<Rightarrow> real list option \<Rightarrow> error + tensor"

definition tuple_ge :: "nat \<times> nat \<Rightarrow> nat \<times> nat \<Rightarrow> bool" where
  "tuple_ge a b = (fst b < fst a \<or> (fst a = fst b \<and> snd b \<le> snd a))"

definition dot :: "real list \<Rightarrow> real list \<Rightarrow> real" where
  "dot x w = sum_list (map2 (*) x w)"

text \<open>
  \<open>torch.nn.functional.linear(input, weight, bias)\<close>: every row of the input times the
  transposed weight, plus the bias when there is one; rows of the input and of the weight
  must have the same length.
\<close>

definition linear :: "tensor \<Rightarrow> tensor \<Rightarrow> real list option \<Rightarrow> error + tensor" where
  "linear input weight bias =
     (if list_all (\<lambda>x. list_all (\<lambda>w. length x = length w) weight) input
         \<and> (case bias of None \<Rightarrow> True | Some b \<Rightarrow> length b = length weight)
      then Inr (map (\<lambda>x. case bias of
                            None \<Rightarrow> map (dot x) weight
                          | Some b \<Rightarrow> map2 (+) (map (dot x) weight) b) input)
      else Inl RuntimeError)"

definition fp8_gemm ::
  "cuda \<Rightarrow> tensor \<Rightarrow> real \<Rightarrow> tensor \<Rightarrow> real \<Rightarrow> real list option \<Rightarrow> error + tensor" where
  "fp8_gemm dev A A_scale B B_scale bias =
     (if tuple_ge (capability dev) (9, 0)
      then scaled_mm dev A (transpose B) A_scale B_scale bias
      else linear (map_tensor (\<lambda>a. a * A_scale) A) (map_tensor (\<lambda>b. b * B_scale) B) bias)"

section \<open>The quantized modules\<close>

text \<open>
  The classes of the modules in a model graph, each with the fields its constructor
  stores: \<open>torch.nn.Linear\<close> (weight and optional bias), the three classes of
  \<open>quantize.py\<close>, and any other module. \<open>act_scale\<close> of the quantizer is \<open>None\<close> until a
  forward pass sets it. \<open>FP8StaticLinear\<close> wraps what it is given in
  \<open>torch.nn.Parameter\<close>, which turns \<open>None\<close> into an empty tensor: \<open>None\<close> in its third
  field stands for that empty parameter.
\<close>

datatype layer =
    Linear tensor "real list option"
  | FP8DynamicLinear tensor real
  | FP8StaticLinearQuantizer tensor real "real option"
  | FP8StaticLinear tensor real "real option"
  | Other

text \<open>\<open>FP8DynamicLinear.forward\<close>, lines 135-145.\<close>

definition FP8DynamicLinear_forward ::
  "cuda \<Rightarrow> tensor \<Rightarrow> real \<Rightarrow> tensor \<Rightarrow> error + tensor" where
  "FP8DynamicLinear_forward dev weight weight_scale x =
     (case per_tensor_quantize x of
        Inl e \<Rightarrow> Inl e
      | Inr (qinput, x_scale) \<Rightarrow> fp8_gemm dev qinput x_scale weight weight_scale None)"

text \<open>
  \<open>FP8StaticLinearQuantizer.forward\<close>, lines 77-96: the new value of \<open>self.act_scale\<close>
  is returned with the output.
\<close>

definition FP8StaticLinearQuantizer_forward ::
  "cuda \<Rightarrow> tensor \<Rightarrow> real \<Rightarrow> real option \<Rightarrow> tensor \<Rightarrow> error + (real option \<times> tensor)" where
  "FP8StaticLinearQuantizer_forward dev weight weight_scale act_scale x =
     (case per_tensor_quantize x of
        Inl e \<Rightarrow> Inl e
      | Inr (qinput, x_act_scale) \<Rightarrow>
          (let act_scale =
                 (case act_scale of
                    None \<Rightarrow> x_act_scale
                  | Some s \<Rightarrow> if x_act_scale > s then x_act_scale else s)
           in case fp8_gemm dev qinput act_scale weight weight_scale None of
                Inl e \<Rightarrow> Inl e
              | Inr output \<Rightarrow> Inr (Some act_scale, output)))"

text \<open>
  \<open>FP8StaticLinear.per_tensor_quantize\<close>, lines 106-114: \<open>tensor / inv_scale\<close> with no
  guard on the divisor. Float division by a zero scale (read as \<open>+0.0\<close>) does not raise:
  it gives an infinity, which the clamp brings back to the end of the range, or, for a
  zero element, NaN, which the clamp and the cast keep.
\<close>

datatype quotient = Finite real | PosInf | NegInf | NaN

definition true_divide :: "real \<Rightarrow> real \<Rightarrow> quotient" where
  "true_divide x s =
     (if s \<noteq> 0 then Finite (x / s)
      else if 0 < x then PosInf else if x < 0 then NegInf else NaN)"

definition clamp_quotient :: "real \<Rightarrow> real \<Rightarrow> quotient \<Rightarrow> real option" where
  "clamp_quotient lo hi v =
     (case v of
        Finite y \<Rightarrow> Some (clamp lo hi y)
      | PosInf \<Rightarrow> Some hi
      | NegInf \<Rightarrow> Some lo
      | NaN \<Rightarrow> None)"

definition FP8StaticLinear_per_tensor_quantize :: "tensor \<Rightarrow> real \<Rightarrow> error + tensor" where
  "FP8StaticLinear_per_tensor_quantize tensor inv_scale =
     (let qweight = map (map (\<lambda>x. clamp_quotient finfo_min finfo_max (true_divide x inv_scale))) tensor
      in if list_all (list_all (\<lambda>v. v \<noteq> None)) qweight
         then Inr (map_tensor to_float8_e4m3fn (map (map the) qweight))
         else Inl NonFinite)"

text \<open>\<open>FP8StaticLinear.forward\<close>, lines 116-126, for a scalar \<open>act_scale\<close>.\<close>

definition FP8StaticLinear_forward ::
  "cuda \<Rightarrow> tensor \<Rightarrow> real \<Rightarrow> real \<Rightarrow> tensor \<Rightarrow> error + tensor" where
  "FP8StaticLinear_forward dev weight weight_scale act_scale x =
     (case FP8StaticLinear_per_tensor_quantize x act_scale of
        Inl e \<Rightarrow> Inl e
      | Inr qinput \<Rightarrow> fp8_gemm dev qinput act_scale weight weight_scale None)"

text \<open>
  Successive forward passes through one quantizer, as the calibration loop makes them:
  the result lists \<open>act_scale\<close> as it stands after each pass.
\<close>

fun forward_passes ::
  "cuda \<Rightarrow> tensor \<Rightarrow> real \<Rightarrow> real option \<Rightarrow> tensor list \<Rightarrow> error + real option list" where
  "forward_passes dev weight weight_scale act_scale [] = Inr []"
| "forward_passes dev weight weight_scale act_scale (x # xs) =
     (case FP8StaticLinearQuantizer_forward dev weight weight_scale act_scale x of
        Inl e \<Rightarrow> Inl e
      | Inr (act_scale, output) \<Rightarrow>
          (case forward_passes dev weight weight_scale act_scale xs of
             Inl e \<Rightarrow> Inl e
           | Inr rest \<Rightarrow> Inr (act_scale # rest)))"

text \<open>The activation scale one pass computes for its input, when it computes one.\<close>

definition x_act_scale :: "tensor \<Rightarrow> real option" where
  "x_act_scale x = (case per_tensor_quantize x of Inl e \<Rightarrow> None | Inr (qinput, s) \<Rightarrow> Some s)"


text \<open>A device below capability 9.0, on which \<open>fp8_gemm\<close> takes the fallback path.\<close>

definition fallback_device :: cuda where
  "fallback_device = \<lparr>capability = (8, 0), scaled_mm = (\<lambda>A B sa sb bias. Inl RuntimeError)\<rparr>"

section \<open>The model graph\<close>

text \<open>
  A \<open>torch.nn.Module\<close> object has what its class stores and the dictionary \<open>_modules\<close> of
  its children, in insertion order. Objects live in a store and are known by their
  address, so that a generator that still holds a replaced module and the graph that no
  longer does are told apart; a constructor call takes the next free address.
\<close>

type_synonym addr = nat

record nn_module =
  content :: layer
  modules :: "(string \<times> addr) list"

record heap =
  objects :: "addr \<Rightarrow> nn_module"
  next_addr :: addr

definition construct :: "heap \<Rightarrow> layer \<Rightarrow> heap" where
  "construct h l =
     h\<lparr>objects := (objects h)(next_addr h := \<lparr>content = l, modules = []\<rparr>),
       next_addr := Suc (next_addr h)\<rparr>"

text \<open>
  \<open>setattr(parent, child_name, module)\<close>: \<open>Module.__setattr__\<close> stores a module value
  under its name in \<open>_modules\<close>, in place when the name is already a key and as a new last
  entry otherwise.
\<close>

definition setattr :: "heap \<Rightarrow> addr \<Rightarrow> string \<Rightarrow> addr \<Rightarrow> heap" where
  "setattr h parent child_name new =
     h\<lparr>objects := (objects h)
          (parent := (objects h parent)
             \<lparr>modules := AList.update child_name new (modules (objects h parent))\<rparr>)\<rparr>"

text \<open>\<open>target.split(".")\<close> and \<open>name.rsplit(".", 1)[0]\<close>.\<close>

fun split_dot :: "string \<Rightarrow> string list" where
  "split_dot [] = [[]]"
| "split_dot (c # cs) =
     (if c = CHR ''.'' then [] # split_dot cs
      else (case split_dot cs of [] \<Rightarrow> [[c]] | a # as \<Rightarrow> (c # a) # as))"

definition rsplit_dot_head :: "string \<Rightarrow> string" where
  "rsplit_dot_head name =
     (if CHR ''.'' \<in> set name
      then rev (tl (dropWhile (\<lambda>c. c \<noteq> CHR ''.'') (rev name)))
      else name)"

text \<open>
  \<open>Module.get_submodule(target)\<close>: the empty target is the module itself; otherwise every
  atom of the target must name a child module of the module reached so far.
\<close>

fun get_attrs :: "heap \<Rightarrow> addr \<Rightarrow> string list \<Rightarrow> error + addr" where
  "get_attrs h m [] = Inr m"
| "get_attrs h m (item # atoms) =
     (case map_of (modules (objects h m)) item of
        None \<Rightarrow> Inl AttributeError
      | Some c \<Rightarrow> get_attrs h c atoms)"

definition get_submodule :: "heap \<Rightarrow> addr \<Rightarrow> string \<Rightarrow> error + addr" where
  "get_submodule h self target =
     (if target = [] then Inr self else get_attrs h self (split_dot target))"

subsection \<open>\<open>named_modules\<close>, a generator\<close>

text \<open>
  \<open>Module.named_modules(memo, prefix)\<close> is a recursive generator: unless the module is in
  \<open>memo\<close> it adds it, yields \<open>(prefix, self)\<close>, and then delegates, for every item of
  \<open>self._modules\<close>, to the child's generator with the prefix extended by the child's
  name. A suspended generator is its stack of frames and the shared \<open>memo\<close>. A frame is a
  call not yet started, a call suspended at its \<open>yield\<close>, or a call inside its loop,
  with the position of the dictionary iterator and the size of the dictionary when the
  iterator was made: the iterator reads the dictionary as it is at each step, and raises
  when the size has changed.
\<close>

datatype frame =
    Called string addr
  | Yielded string addr
  | Iterating string addr nat nat

record generator =
  memo :: "addr set"
  stack :: "frame list"

datatype gen_result =
    Stop
  | Raise error
  | Skip generator
  | Yield string addr generator

definition submodule_prefix :: "string \<Rightarrow> string \<Rightarrow> string" where
  "submodule_prefix prefix name = prefix @ (if prefix = [] then [] else ''.'') @ name"

definition gen_step :: "heap \<Rightarrow> generator \<Rightarrow> gen_result" where
  "gen_step h g =
     (case stack g of
        [] \<Rightarrow> Stop
      | Called prefix self # st \<Rightarrow>
          if self \<in> memo g then Skip (g\<lparr>stack := st\<rparr>)
          else Yield prefix self \<lparr>memo = insert self (memo g), stack = Yielded prefix self # st\<rparr>
      | Yielded prefix self # st \<Rightarrow>
          Skip (g\<lparr>stack := Iterating prefix self 0 (length (modules (objects h self))) # st\<rparr>)
      | Iterating prefix self i n # st \<Rightarrow>
          if length (modules (objects h self)) \<noteq> n then Raise RuntimeError
          else if i < n then
            (case modules (objects h self) ! i of
               (name, child) \<Rightarrow>
                 Skip (g\<lparr>stack := Called (submodule_prefix prefix name) child
                                    # Iterating prefix self (Suc i) n # st\<rparr>))
          else Skip (g\<lparr>stack := st\<rparr>))"

definition named_modules :: "addr \<Rightarrow> generator" where
  "named_modules mroot = \<lparr>memo = {}, stack = [Called [] mroot]\<rparr>"

subsection \<open>The rewrite loops\<close>

text \<open>
  The three loops of lines 149-162, 167-181 and 188-202 are one text but for the class
  they test and the module they construct. \<open>replace\<close> is that part: \<open>None\<close> for a module
  the loop skips (\<open>continue\<close>), else the constructed replacement or the error raised on
  the way. \<open>install\<close> is the rest of the body, lines 154-162, and \<open>loop_body\<close> the
  whole body.
\<close>

definition install :: "addr \<Rightarrow> string \<Rightarrow> layer \<Rightarrow> heap \<Rightarrow> error + heap" where
  "install mroot name new_layer h =
     (let new = next_addr h; h = construct h new_layer
      in if CHR ''.'' \<in> set name
         then (let parent_name = rsplit_dot_head name;
                   child_name = drop (length parent_name + 1) name
               in case get_submodule h mroot parent_name of
                    Inl e \<Rightarrow> Inl e
                  | Inr parent \<Rightarrow> Inr (setattr h parent child_name new))
         else Inr (setattr h mroot name new))"

definition loop_body ::
  "(layer \<Rightarrow> (error + layer) option) \<Rightarrow> addr \<Rightarrow> string \<Rightarrow> addr \<Rightarrow> heap \<Rightarrow> error + heap" where
  "loop_body replace mroot name m h =
     (case replace (content (objects h m)) of
        None \<Rightarrow> Inr h
      | Some (Inl e) \<Rightarrow> Inl e
      | Some (Inr new_layer) \<Rightarrow> install mroot name new_layer h)"

datatype loop_state =
    Running heap generator
  | Finished "error + heap"

text \<open>
  One step of a \<open>for name, m in model.model.named_modules()\<close> loop: the generator is
  resumed; when it yields, the body runs on the heap as it is then, and the generator
  stays suspended where it yielded.
\<close>

definition loop_step ::
  "(layer \<Rightarrow> (error + layer) option) \<Rightarrow> addr \<Rightarrow> heap \<Rightarrow> generator \<Rightarrow> loop_state" where
  "loop_step replace mroot h g =
     (case gen_step h g of
        Stop \<Rightarrow> Finished (Inr h)
      | Raise e \<Rightarrow> Finished (Inl e)
      | Skip g' \<Rightarrow> Running h g'
      | Yield name m g' \<Rightarrow>
          (case loop_body replace mroot name m h of
             Inl e \<Rightarrow> Finished (Inl e)
           | Inr h' \<Rightarrow> Running h' g'))"

partial_function (option) rewrite_loop ::
  "(layer \<Rightarrow> (error + layer) option) \<Rightarrow> addr \<Rightarrow> heap \<Rightarrow> generator \<Rightarrow> (error + heap) option"
where
  "rewrite_loop replace mroot h g =
     (case loop_step replace mroot h g of
        Finished r \<Rightarrow> Some r
      | Running h' g' \<Rightarrow> rewrite_loop replace mroot h' g')"

text \<open>Lines 150-153, 168-172 and 189-193.\<close>

definition to_dynamic :: "layer \<Rightarrow> (error + layer) option" where
  "to_dynamic l =
     (case l of
        Linear weight bias \<Rightarrow>
          Some (case per_tensor_quantize weight of
                  Inl e \<Rightarrow> Inl e
                | Inr (quant_weight, quant_scale) \<Rightarrow> Inr (FP8DynamicLinear quant_weight quant_scale))
      | _ \<Rightarrow> None)"

definition to_quantizer :: "layer \<Rightarrow> (error + layer) option" where
  "to_quantizer l =
     (case l of
        FP8DynamicLinear weight weight_scale \<Rightarrow>
          Some (Inr (FP8StaticLinearQuantizer weight weight_scale None))
      | _ \<Rightarrow> None)"

definition to_static :: "layer \<Rightarrow> (error + layer) option" where
  "to_static l =
     (case l of
        FP8StaticLinearQuantizer weight weight_scale act_scale \<Rightarrow>
          Some (Inr (FP8StaticLinear weight weight_scale act_scale))
      | _ \<Rightarrow> None)"

text \<open>\<open>quantize_weights(model)\<close>, lines 148-162, on \<open>model.model\<close> at address \<open>mroot\<close>.\<close>

definition quantize_weights :: "addr \<Rightarrow> heap \<Rightarrow> (error + heap) option" where
  "quantize_weights mroot h = rewrite_loop to_dynamic mroot h (named_modules mroot)"

subsection \<open>Calibration\<close>

text \<open>
  \<open>model(row)\<close> runs the forward pass of an architecture that is not in the repository.
  What it does to the graph is given by the calls it makes to modules of the graph, in
  order, each with the dotted name of the module and the input it passes: a call that
  reaches an \<open>FP8StaticLinearQuantizer\<close> runs its forward, lines 77-96, which stores the
  new \<open>act_scale\<close>; the forward of every other class leaves the graph as it is.
\<close>

type_synonym calls = "(string \<times> tensor) list"

fun model_forward :: "cuda \<Rightarrow> addr \<Rightarrow> heap \<Rightarrow> calls \<Rightarrow> error + heap" where
  "model_forward dev mroot h [] = Inr h"
| "model_forward dev mroot h ((name, x) # rest) =
     (case get_submodule h mroot name of
        Inl e \<Rightarrow> Inl e
      | Inr m \<Rightarrow>
          (case content (objects h m) of
             FP8StaticLinearQuantizer weight weight_scale act_scale \<Rightarrow>
               (case FP8StaticLinearQuantizer_forward dev weight weight_scale act_scale x of
                  Inl e \<Rightarrow> Inl e
                | Inr (act_scale, output) \<Rightarrow>
                    model_forward dev mroot
                      (h\<lparr>objects := (objects h)
                           (m := (objects h m)
                              \<lparr>content := FP8StaticLinearQuantizer weight weight_scale act_scale\<rparr>)\<rparr>)
                      rest)
           | _ \<Rightarrow> model_forward dev mroot h rest))"

text \<open>
  The calibration loop, lines 184-185: one forward pass per row of
  \<open>calibration_tokens\<close>. The calls of a pass depend on the row and on the graph the pass
  starts from.
\<close>

fun calibration ::
  "cuda \<Rightarrow> (heap \<Rightarrow> nat list \<Rightarrow> calls) \<Rightarrow> addr \<Rightarrow> heap \<Rightarrow> nat list list \<Rightarrow> error + heap" where
  "calibration dev model mroot h [] = Inr h"
| "calibration dev model mroot h (row # rows) =
     (case model_forward dev mroot h (model h row) of
        Inl e \<Rightarrow> Inl e
      | Inr h' \<Rightarrow> calibration dev model mroot h' rows)"

text \<open>\<open>quantize_activations(model, calibration_tokens)\<close>, lines 165-202.\<close>

definition quantize_activations ::
  "cuda \<Rightarrow> (heap \<Rightarrow> nat list \<Rightarrow> calls) \<Rightarrow> addr \<Rightarrow> heap \<Rightarrow> nat list list \<Rightarrow> (error + heap) option"
where
  "quantize_activations dev model mroot h calibration_tokens =
     (case rewrite_loop to_quantizer mroot h (named_modules mroot) of
        None \<Rightarrow> None
      | Some (Inl e) \<Rightarrow> Some (Inl e)
      | Some (Inr h1) \<Rightarrow>
          (case calibration dev model mroot h1 calibration_tokens of
             Inl e \<Rightarrow> Some (Inl e)
           | Inr h2 \<Rightarrow> rewrite_loop to_static mroot h2 (named_modules mroot)))"

section \<open>Properties of the quantizer\<close>


lemma cast_max: "to_float8_e4m3fn 448 = 448"
  by (simp add: to_float8_e4m3fn_def spacing_def round_half_even_def eval_nat_numeral)













section \<open>Properties of the quantized modules\<close>






lemma observer_forward_scale:
  assumes "FP8StaticLinearQuantizer_forward dev w ws a x = Inr (a', out)"
  shows "\<exists>s. x_act_scale x = Some s \<and> a' = Some (case a of None \<Rightarrow> s | Some v \<Rightarrow> max v s)"
  using assms
  by (auto simp: FP8StaticLinearQuantizer_forward_def x_act_scale_def Let_def max_def
      split: sum.splits option.splits if_splits)

lemma forward_passes_running:
  assumes "forward_passes dev w ws (Some v) xs = Inr tr"
  shows "\<exists>ss. map x_act_scale xs = map Some ss \<and> length tr = length xs
     \<and> (\<forall>n<length xs. tr ! n = Some (Max (insert v (set (take (Suc n) ss)))))"
  using assms
proof (induction xs arbitrary: v tr)
  case Nil
  then show ?case by simp
next
  case (Cons x xs)
  from Cons.prems obtain a' out rest where
    f: "FP8StaticLinearQuantizer_forward dev w ws (Some v) x = Inr (a', out)"
    and r: "forward_passes dev w ws a' xs = Inr rest" and tr: "tr = a' # rest"
    by (auto split: sum.splits)
  from observer_forward_scale[OF f] obtain s where
    s: "x_act_scale x = Some s" and a': "a' = Some (max v s)"
    by auto
  from Cons.IH[OF r[unfolded a']] obtain ss where
    ss: "map x_act_scale xs = map Some ss" and len: "length rest = length xs"
    and run: "\<forall>n<length xs. rest ! n = Some (Max (insert (max v s) (set (take (Suc n) ss))))"
    by auto
  have "tr ! n = Some (Max (insert v (set (take (Suc n) (s # ss)))))" if "n < length (x # xs)" for n
  proof (cases n)
    case 0
    then show ?thesis by (simp add: tr a')
  next
    case (Suc m)
    with that run have "rest ! m = Some (Max (insert (max v s) (set (take (Suc m) ss))))"
      by simp
    moreover have "Max (insert (max v s) (set (take (Suc m) ss)))
        = Max (insert v (insert s (set (take (Suc m) ss))))"
      by (cases "set (take (Suc m) ss) = {}")
        (simp_all add: max.assoc del: take_Suc_Cons set_empty)
    ultimately show ?thesis
      by (simp add: tr Suc)
  qed
  with s ss len tr show ?case
    by (intro exI[of _ "s # ss"]) simp
qed

text \<open>
  C4. Take any sequence of forward passes through a quantizer whose \<open>act_scale\<close> starts
  absent, each pass returning. With \<open>ss\<close> the activation scales the passes compute for
  their inputs, the stored scale after pass \<open>n\<close> is the maximum of \<open>ss\<close> up to \<open>n\<close>: it
  never decreases from one pass to a later one, after the first pass it is that pass's
  scale whatever its value, and after the last it is the maximum of all of \<open>ss\<close>.
\<close>

theorem observer_scale_running_max:
  assumes "forward_passes dev w ws None xs = Inr tr"
  shows "\<exists>ss. map x_act_scale xs = map Some ss \<and> length tr = length xs
     \<and> (\<forall>n<length xs. tr ! n = Some (Max (set (take (Suc n) ss))))
     \<and> (\<forall>n<length xs. \<forall>m\<le>n. \<exists>a b. tr ! m = Some a \<and> tr ! n = Some b \<and> a \<le> b)
     \<and> (xs \<noteq> [] \<longrightarrow> hd tr = Some (hd ss) \<and> last tr = Some (Max (set ss)))"
proof (cases xs)
  case Nil
  with assms show ?thesis by simp
next
  case (Cons x xs')
  from assms Cons obtain a' out rest where
    f: "FP8StaticLinearQuantizer_forward dev w ws None x = Inr (a', out)"
    and r: "forward_passes dev w ws a' xs' = Inr rest" and tr: "tr = a' # rest"
    by (auto split: sum.splits)
  from observer_forward_scale[OF f] obtain s where
    s: "x_act_scale x = Some s" and a': "a' = Some s"
    by auto
  from forward_passes_running[OF r[unfolded a']] obtain ss where
    ss: "map x_act_scale xs' = map Some ss" and len: "length rest = length xs'"
    and run: "\<forall>n<length xs'. rest ! n = Some (Max (insert s (set (take (Suc n) ss))))"
    by auto
  have lss: "length ss = length xs'"
    using ss by (metis length_map)
  have running: "tr ! n = Some (Max (set (take (Suc n) (s # ss))))" if "n < length xs" for n
  proof (cases n)
    case 0
    then show ?thesis by (simp add: tr a')
  next
    case (Suc m)
    with that run Cons show ?thesis
      by (simp add: tr)
  qed
  have mono: "\<exists>a b. tr ! m = Some a \<and> tr ! n = Some b \<and> a \<le> b"
    if "n < length xs" "m \<le> n" for m n
  proof -
    from that have "m < length xs" by simp
    have "set (take (Suc m) (s # ss)) \<subseteq> set (take (Suc n) (s # ss))"
      using that(2) by (intro set_take_subset_set_take) simp
    then have "Max (set (take (Suc m) (s # ss))) \<le> Max (set (take (Suc n) (s # ss)))"
      by (intro Max_mono) auto
    with running[OF that(1)] running[OF \<open>m < length xs\<close>] show ?thesis
      by simp
  qed
  have "last tr = tr ! (length xs - 1)"
    using tr len Cons by (simp add: last_conv_nth del: last.simps)
  also have "\<dots> = Some (Max (set (take (Suc (length xs - 1)) (s # ss))))"
    using running[of "length xs - 1"] Cons by simp
  also have "take (Suc (length xs - 1)) (s # ss) = s # ss"
    using lss Cons by simp
  finally have l: "last tr = Some (Max (set (s # ss)))" .
  have h: "hd tr = Some (hd (s # ss))"
    by (simp add: tr a')
  have A: "map x_act_scale xs = map Some (s # ss)"
    using s ss Cons by simp
  have B: "length tr = length xs"
    using tr len Cons by simp
  have C: "\<forall>n<length xs. tr ! n = Some (Max (set (take (Suc n) (s # ss))))"
    using running by blast
  have D: "\<forall>n<length xs. \<forall>m\<le>n. \<exists>a b. tr ! m = Some a \<and> tr ! n = Some b \<and> a \<le> b"
    using mono by blast
  from A B C D h l show ?thesis
    by blast
qed

lemma observer_first_pass:
  "FP8StaticLinearQuantizer_forward fallback_device [[1]] 1 None [[224]]
     = Inr (Some (1 / 2), [[224]])"
  by (simp add: FP8StaticLinearQuantizer_forward_def per_tensor_quantize_def aminmax_def
      elements_def clamp_min_def epsilon_def finfo_max_def finfo_min_def map_tensor_def
      clamp_def cast_max fp8_gemm_def fallback_device_def tuple_ge_def linear_def dot_def)

lemma observer_second_pass:
  "FP8StaticLinearQuantizer_forward fallback_device [[1]] 1 (Some (1 / 2)) [[672 / 5]]
     = Inr (Some (1 / 2), [[224]])"
  by (simp add: FP8StaticLinearQuantizer_forward_def per_tensor_quantize_def aminmax_def
      elements_def clamp_min_def epsilon_def finfo_max_def finfo_min_def map_tensor_def
      clamp_def cast_max fp8_gemm_def fallback_device_def tuple_ge_def linear_def dot_def)

theorem observer_scale_running_max_witness:
  "forward_passes fallback_device [[1]] 1 None [[[224]], [[672 / 5]]]
     = Inr [Some (1 / 2), Some (1 / 2)]
   \<and> map x_act_scale [[[224]], [[672 / 5]]] = [Some (1 / 2), Some (3 / 10)]"
proof -
  have run: "forward_passes fallback_device [[1]] 1 None [[[224]], [[672 / 5]]]
      = Inr [Some (1 / 2), Some (1 / 2)]"
    by (simp add: observer_first_pass observer_second_pass)
  have sc: "map x_act_scale [[[224]], [[672 / 5]]] = [Some (1 / 2), Some (3 / 10)]"
    by (simp add: x_act_scale_def per_tensor_quantize_def aminmax_def elements_def
        clamp_min_def epsilon_def finfo_max_def)
  from observer_scale_running_max[OF run] run sc show ?thesis
    by simp
qed

end
